theory Spec2Isabelle
  imports Main "HOL-Library.Char_ord" "HOL-Library.List_Lexorder"
begin

section \<open>Tables\<close>

text \<open>
  The application (\<^verbatim>\<open>Faculty_DashBoard/app.py\<close>) keeps four CSV files and works on them
  through pandas data frames that are always read with \<^verbatim>\<open>dtype=str\<close>. A cell is therefore
  a string or the missing value NaN, written \<open>None\<close> here. A data frame is its list of
  column names and its list of rows, every row being the list of its cells in column order.
\<close>

type_synonym cell = "string option"

record dataframe =
  columns :: "string list"
  rows :: "cell list list"

datatype exn =
    FileNotFoundError
  | ParserError
  | EmptyDataError
  | KeyError string
  | IndexError
  | DuplicateWidgetKey string

text \<open>\<^verbatim>\<open>pd.DataFrame(columns=headers)\<close>: a header and no rows.\<close>

definition DataFrame_columns :: "string list \<Rightarrow> dataframe" where
  "DataFrame_columns headers = \<lparr>columns = headers, rows = []\<rparr>"

text \<open>
  \<^verbatim>\<open>pd.DataFrame(rows)\<close> for a list of dictionaries that all have the keys \<open>keys\<close> in
  this order; each dictionary is given by its values. An empty list yields a frame
  without columns.
\<close>

definition DataFrame_records :: "string list \<Rightarrow> cell list list \<Rightarrow> dataframe" where
  "DataFrame_records keys rs =
     (if rs = [] then \<lparr>columns = [], rows = []\<rparr> else \<lparr>columns = keys, rows = rs\<rparr>)"

text \<open>\<^verbatim>\<open>df.empty\<close>: one of the two axes has length zero.\<close>

definition df_empty :: "dataframe \<Rightarrow> bool" where
  "df_empty df = (columns df = [] \<or> rows df = [])"

text \<open>The value of a row under a column label; NaN when the row has no such cell.\<close>

definition cell_at :: "string list \<Rightarrow> cell list \<Rightarrow> string \<Rightarrow> cell" where
  "cell_at cols r c = (case map_of (zip cols r) c of None \<Rightarrow> None | Some v \<Rightarrow> v)"

text \<open>\<^verbatim>\<open>row[c]\<close>: raises \<^verbatim>\<open>KeyError\<close> for a label that is not a column.\<close>

definition getitem :: "string list \<Rightarrow> cell list \<Rightarrow> string \<Rightarrow> exn + cell" where
  "getitem cols r c = (if c \<in> set cols then Inr (cell_at cols r c) else Inl (KeyError c))"

text \<open>\<^verbatim>\<open>df[c]\<close>: the column as a list of cells, or \<^verbatim>\<open>KeyError\<close>.\<close>

definition column :: "dataframe \<Rightarrow> string \<Rightarrow> exn + cell list" where
  "column df c =
     (if c \<in> set (columns df) then Inr (map (\<lambda>r. cell_at (columns df) r c) (rows df))
      else Inl (KeyError c))"


text \<open>\<^verbatim>\<open>df[mask]\<close> for a mask computed row by row.\<close>

definition select_rows :: "(cell list \<Rightarrow> bool) \<Rightarrow> dataframe \<Rightarrow> dataframe" where
  "select_rows keep df = df\<lparr>rows := filter keep (rows df)\<rparr>"

text \<open>\<^verbatim>\<open>df.rename(columns={old: new})\<close>.\<close>

definition rename :: "string \<Rightarrow> string \<Rightarrow> dataframe \<Rightarrow> dataframe" where
  "rename old new df = df\<lparr>columns := map (\<lambda>c. if c = old then new else c) (columns df)\<rparr>"

text \<open>
  \<^verbatim>\<open>pd.concat([a, b], ignore_index=True)\<close>: the columns of \<open>a\<close> followed by the columns
  only \<open>b\<close> has; every row is laid out under the joint columns, with NaN where its own
  frame had no such column.
\<close>

definition reindex :: "string list \<Rightarrow> string list \<Rightarrow> cell list \<Rightarrow> cell list" where
  "reindex cols new_cols r = map (cell_at cols r) new_cols"

definition concat_frames :: "dataframe \<Rightarrow> dataframe \<Rightarrow> dataframe" where
  "concat_frames a b =
     (let cols = columns a @ filter (\<lambda>c. c \<notin> set (columns a)) (columns b)
      in \<lparr>columns = cols,
          rows = map (reindex (columns a) cols) (rows a) @ map (reindex (columns b) cols) (rows b)\<rparr>)"


definition str :: "cell \<Rightarrow> string" where
  "str c = (case c of None \<Rightarrow> ''nan'' | Some s \<Rightarrow> s)"

text \<open>Running a list of steps that may raise: the first exception wins.\<close>

fun collect :: "(exn + 'a) list \<Rightarrow> exn + 'a list" where
  "collect [] = Inr []"
| "collect (Inl e # _) = Inl e"
| "collect (Inr x # xs) = (case collect xs of Inl e \<Rightarrow> Inl e | Inr ys \<Rightarrow> Inr (x # ys))"

section \<open>Files\<close>

text \<open>
  A CSV file is modelled by what \<^verbatim>\<open>pd.read_csv(path, dtype=str)\<close> makes of it: the file is
  absent, its bytes do not parse, or it holds a table. \<^verbatim>\<open>df.to_csv(path, index=False)\<close>
  stores the table, and reading it back returns it: the CSV text in between is not
  modelled, so a cell whose text pandas would read back as a missing value (an empty
  string, or a marker such as \<^verbatim>\<open>NA\<close>) is taken to come back as it was written. Reading a
  file that was written from a frame without columns raises \<^verbatim>\<open>EmptyDataError\<close>. The 60
  second cache in front of \<^verbatim>\<open>load_subjects\<close> and \<^verbatim>\<open>load_faculty\<close> is left out: every
  load reads the file.
\<close>

datatype csv_file = Missing | Unparseable | Csv dataframe

definition read_csv :: "csv_file \<Rightarrow> exn + dataframe" where
  "read_csv f =
     (case f of
        Missing \<Rightarrow> Inl FileNotFoundError
      | Unparseable \<Rightarrow> Inl ParserError
      | Csv df \<Rightarrow> if columns df = [] then Inl EmptyDataError else Inr df)"

text \<open>
  The state of one script run: the four files under \<^verbatim>\<open>data/\<close> and the four module-level
  frames that mirror them.
\<close>

record world =
  subjects_file :: csv_file
  faculty_file :: csv_file
  choice_file :: csv_file
  avail_file :: csv_file
  subjects_df :: dataframe
  faculty_df :: dataframe
  choices_df :: dataframe
  avail_df :: dataframe



definition subjects_header :: "string list" where
  "subjects_header = [''Year'', ''Subject_Code'', ''Subject_Name'']"

definition faculty_header :: "string list" where
  "faculty_header = [''Faculty_Name'']"

definition choice_header :: "string list" where
  "choice_header =
     [''Regd_No'', ''Name'', ''Year'', ''Section'', ''Subject_Code'', ''Subject_Name'',
      ''Faculty_Selected'']"

definition avail_header :: "string list" where
  "avail_header = [''Faculty_Name'', ''Subject_Code'', ''Subject_Name'', ''Available'']"

definition load_subjects :: "world \<Rightarrow> dataframe" where
  "load_subjects w =
     (case read_csv (subjects_file w) of
        Inr df \<Rightarrow> df
      | Inl _ \<Rightarrow> DataFrame_columns [''Year'', ''Subject_Code'', ''Subject_Name''])"

definition load_faculty :: "world \<Rightarrow> dataframe" where
  "load_faculty w =
     (case read_csv (faculty_file w) of
        Inr df \<Rightarrow>
          (case columns df of
             c0 # _ \<Rightarrow> if ''Faculty_Name'' \<notin> set (columns df)
                       then rename c0 ''Faculty_Name'' df else df
           | [] \<Rightarrow> df)
      | Inl _ \<Rightarrow> DataFrame_columns [''Faculty_Name''])"

definition load_choices :: "world \<Rightarrow> dataframe" where
  "load_choices w =
     (case read_csv (choice_file w) of
        Inr df \<Rightarrow> df
      | Inl _ \<Rightarrow>
          DataFrame_columns
            [''Regd_No'', ''Name'', ''Year'', ''Section'', ''Subject_Code'', ''Subject_Name'',
             ''Faculty_Selected''])"

definition load_availability :: "world \<Rightarrow> dataframe" where
  "load_availability w =
     (case read_csv (avail_file w) of
        Inr df \<Rightarrow> df
      | Inl _ \<Rightarrow>
          DataFrame_columns [''Faculty_Name'', ''Subject_Code'', ''Subject_Name'', ''Available''])"

section \<open>Availability initialisation\<close>

text \<open>
  Line 116: \<^verbatim>\<open>frow.get("Faculty_Name") if "Faculty_Name" in frow.index else frow.iloc[0]\<close>.
\<close>

definition faculty_name_of :: "string list \<Rightarrow> cell list \<Rightarrow> exn + cell" where
  "faculty_name_of cols frow =
     (if ''Faculty_Name'' \<in> set cols then Inr (cell_at cols frow ''Faculty_Name'')
      else (case frow of [] \<Rightarrow> Inl IndexError | x # _ \<Rightarrow> Inr x))"

text \<open>The inner loop over the subjects (lines 117 to 123, again 359 to 365).\<close>

definition default_rows :: "cell \<Rightarrow> dataframe \<Rightarrow> exn + cell list list" where
  "default_rows fname sdf =
     collect (map (\<lambda>srow.
        case getitem (columns sdf) srow ''Subject_Code'' of
          Inl e \<Rightarrow> Inl e
        | Inr code \<Rightarrow>
            (case getitem (columns sdf) srow ''Subject_Name'' of
               Inl e \<Rightarrow> Inl e
             | Inr sname \<Rightarrow> Inr [fname, code, sname, Some ''Yes''])) (rows sdf))"

text \<open>The outer loop over the faculty rows (lines 115 to 123).\<close>

definition cross_rows :: "dataframe \<Rightarrow> dataframe \<Rightarrow> exn + cell list list" where
  "cross_rows fdf sdf =
     (case collect (map (\<lambda>frow.
              case faculty_name_of (columns fdf) frow of
                Inl e \<Rightarrow> Inl e
              | Inr fname \<Rightarrow> default_rows fname sdf) (rows fdf)) of
        Inl e \<Rightarrow> Inl e
      | Inr rss \<Rightarrow> Inr (concat rss))"

definition initialize_availability_if_empty :: "world \<Rightarrow> exn + world" where
  "initialize_availability_if_empty w =
     (if df_empty (faculty_df w) \<or> df_empty (subjects_df w) then Inr w
      else if df_empty (avail_df w) then
        (case cross_rows (faculty_df w) (subjects_df w) of
           Inl e \<Rightarrow> Inl e
         | Inr rs \<Rightarrow>
             (let a = DataFrame_records
                        [''Faculty_Name'', ''Subject_Code'', ''Subject_Name'', ''Available''] rs
              in Inr (w\<lparr>avail_df := a, avail_file := Csv a\<rparr>)))
      else Inr w)"


section \<open>Admin: uploads and the workload report\<close>

datatype notice =
    Error_missing_columns
  | Error_reading_file exn
  | Error_no_name_column
  | Success_saved
  | Warning_prerequisites
  | Error_fill_all_fields
  | Warning_no_subjects
  | Success_recorded

text \<open>
  Lines 140 to 154, for an uploaded file. Every exception inside is caught and reported;
  when the availability initialisation raises, the subjects file has already been written.
\<close>

definition upload_subjects :: "csv_file \<Rightarrow> world \<Rightarrow> world \<times> notice list" where
  "upload_subjects uploaded w =
     (case read_csv uploaded of
        Inl e \<Rightarrow> (w, [Error_reading_file e])
      | Inr df_sub \<Rightarrow>
          if \<not> {''Year'', ''Subject_Code'', ''Subject_Name''} \<subseteq> set (columns df_sub)
          then (w, [Error_missing_columns])
          else
            (let w1 = w\<lparr>subjects_file := Csv df_sub\<rparr>;
                 w2 = w1\<lparr>subjects_df := df_sub\<rparr>
             in case initialize_availability_if_empty w2 of
                  Inl e \<Rightarrow> (w2, [Success_saved, Error_reading_file e])
                | Inr w3 \<Rightarrow> (w3, [Success_saved])))"

text \<open>
  \<^verbatim>\<open>"name" in c.lower()\<close>. Column names are taken to be ASCII, where \<^verbatim>\<open>lower\<close> maps the
  letters A to Z and nothing else.
\<close>

definition lower_char :: "char \<Rightarrow> char" where
  "lower_char c =
     (case map_of (zip ''ABCDEFGHIJKLMNOPQRSTUVWXYZ'' ''abcdefghijklmnopqrstuvwxyz'') c of
        None \<Rightarrow> c
      | Some d \<Rightarrow> d)"

definition lower :: "string \<Rightarrow> string" where
  "lower s = map lower_char s"

fun starts_with :: "string \<Rightarrow> string \<Rightarrow> bool" where
  "starts_with [] _ = True"
| "starts_with (p # ps) [] = False"
| "starts_with (p # ps) (x # xs) = (p = x \<and> starts_with ps xs)"

fun contains :: "string \<Rightarrow> string \<Rightarrow> bool" where
  "contains sub [] = (sub = [])"
| "contains sub (x # xs) = (starts_with sub (x # xs) \<or> contains sub xs)"

text \<open>
  Lines 166 to 177: keep a frame that has \<^verbatim>\<open>Faculty_Name\<close>, else rename the first column
  whose lower-cased name contains \<^verbatim>\<open>name\<close>; \<open>None\<close> is the branch that reports the error
  and stops the run.
\<close>

definition detect_name_column :: "dataframe \<Rightarrow> dataframe option" where
  "detect_name_column df_fac =
     (if ''Faculty_Name'' \<notin> set (columns df_fac) then
        (case find (\<lambda>c. contains ''name'' (lower c)) (columns df_fac) of
           None \<Rightarrow> None
         | Some candidate \<Rightarrow>
             if candidate \<noteq> [] then Some (rename candidate ''Faculty_Name'' df_fac) else None)
      else Some df_fac)"




section \<open>Widgets\<close>

text \<open>
  \<^verbatim>\<open>st.selectbox(label, options, key=k)\<close> returns the option the user has chosen, and
  \<^verbatim>\<open>None\<close> when there is no option. The user's input is the position of the chosen option,
  kept by Streamlit under the widget's key; which option is preselected does not matter
  for what a submitted form returns. Streamlit refuses a second widget with a key that
  the run has already used and raises; the loops below therefore carry the keys used so
  far. A form is modelled for the run in which it is submitted.
\<close>

definition selectbox :: "string list \<Rightarrow> nat \<Rightarrow> cell" where
  "selectbox options i = (if i < length options then Some (options ! i) else None)"

section \<open>Faculty: saving availability\<close>

text \<open>Lines 373 to 383: one select box and one submitted row per row of \<^verbatim>\<open>my_avail\<close>.\<close>

fun availability_form_rows ::
  "string \<Rightarrow> (string \<Rightarrow> nat) \<Rightarrow> string list \<Rightarrow> string list \<Rightarrow> cell list list
     \<Rightarrow> exn + cell list list" where
  "availability_form_rows selected_faculty widget cols used [] = Inr []"
| "availability_form_rows selected_faculty widget cols used (row # rest) =
     (case getitem cols row ''Subject_Code'' of
        Inl e \<Rightarrow> Inl e
      | Inr code \<Rightarrow>
          (case getitem cols row ''Subject_Name'' of
             Inl e \<Rightarrow> Inl e
           | Inr sname \<Rightarrow>
               (let key = ''avail_'' @ str code
                in if key \<in> set used then Inl (DuplicateWidgetKey key)
                   else
                     (case availability_form_rows selected_faculty widget cols (key # used) rest of
                        Inl e \<Rightarrow> Inl e
                      | Inr updated_rows \<Rightarrow>
                          Inr ([Some selected_faculty, code, sname,
                                selectbox [''Yes'', ''No''] (widget key)] # updated_rows)))))"

definition availability_form ::
  "string \<Rightarrow> dataframe \<Rightarrow> (string \<Rightarrow> nat) \<Rightarrow> exn + cell list list" where
  "availability_form selected_faculty my_avail widget =
     availability_form_rows selected_faculty widget (columns my_avail) [] (rows my_avail)"

text \<open>
  Lines 386 to 391: reload, drop the rows of this faculty (a NaN name is not equal to
  it and stays), append the submitted rows, overwrite the file.
\<close>

definition save_avail :: "string \<Rightarrow> cell list list \<Rightarrow> world \<Rightarrow> exn + world" where
  "save_avail selected_faculty updated_rows w =
     (let avail = load_availability w
      in if ''Faculty_Name'' \<notin> set (columns avail) then Inl (KeyError ''Faculty_Name'')
         else
           (let kept = select_rows
                         (\<lambda>r. cell_at (columns avail) r ''Faculty_Name'' \<noteq> Some selected_faculty)
                         avail;
                final = concat_frames kept
                          (DataFrame_records
                             [''Faculty_Name'', ''Subject_Code'', ''Subject_Name'', ''Available'']
                             updated_rows)
            in Inr (w\<lparr>avail_df := final, avail_file := Csv final\<rparr>)))"

section \<open>Student: the selection form and the submission\<close>









section \<open>Runs of the script\<close>



section \<open>Tables with a given header, and example data\<close>

text \<open>A table of one of the four kinds: it has exactly that header and full rows.\<close>

definition is_table :: "string list \<Rightarrow> dataframe \<Rightarrow> bool" where
  "is_table header df =
     (columns df = header \<and> list_all (\<lambda>r. length r = length header) (rows df))"

definition blank_frame :: dataframe where
  "blank_frame = \<lparr>columns = [], rows = []\<rparr>"

text \<open>A data directory in which no file can be read.\<close>

definition broken_world :: world where
  "broken_world =
     \<lparr>subjects_file = Missing, faculty_file = Unparseable, choice_file = Csv blank_frame,
      avail_file = Missing, subjects_df = blank_frame, faculty_df = blank_frame,
      choices_df = blank_frame, avail_df = blank_frame\<rparr>"

text \<open>Uploads: a subjects file with an extra column, and one without \<^verbatim>\<open>Subject_Code\<close>.\<close>

definition subjects_upload_ok :: dataframe where
  "subjects_upload_ok =
     \<lparr>columns = [''Year'', ''Subject_Code'', ''Subject_Name'', ''Credits''],
      rows = [[Some ''1'', Some ''CS101'', Some ''Intro'', None]]\<rparr>"

definition subjects_upload_bad :: dataframe where
  "subjects_upload_bad =
     \<lparr>columns = [''Year'', ''Code'', ''Subject_Name''],
      rows = [[Some ''1'', Some ''CS101'', Some ''Intro'']]\<rparr>"



text \<open>
  The (Faculty_Name, Subject_Code) pairs of an availability table, row by row, and the
  row that the initialisation writes for a faculty name, a subject code and its name.
\<close>

definition faculty_subject_pairs :: "dataframe \<Rightarrow> (cell \<times> cell) list" where
  "faculty_subject_pairs df =
     map (\<lambda>r. (cell_at (columns df) r ''Faculty_Name'', cell_at (columns df) r ''Subject_Code''))
       (rows df)"

definition default_row :: "cell \<times> cell \<times> cell \<Rightarrow> cell list" where
  "default_row = (\<lambda>(n, c, s). [n, c, s, Some ''Yes''])"

text \<open>
  The scenario of the specification, after the four loads of a run: one subject,
  two faculty members, no choice and no availability row yet.
\<close>

definition scenario_subjects :: dataframe where
  "scenario_subjects =
     \<lparr>columns = [''Year'', ''Subject_Code'', ''Subject_Name''],
      rows = [[Some ''1'', Some ''CS101'', Some ''Intro'']]\<rparr>"

definition scenario_faculty :: dataframe where
  "scenario_faculty = \<lparr>columns = [''Faculty_Name''], rows = [[Some ''Dr. A''], [Some ''Dr. B'']]\<rparr>"

definition scenario_world :: world where
  "scenario_world =
     \<lparr>subjects_file = Csv scenario_subjects, faculty_file = Csv scenario_faculty,
      choice_file = Csv (DataFrame_columns choice_header),
      avail_file = Csv (DataFrame_columns avail_header),
      subjects_df = scenario_subjects, faculty_df = scenario_faculty,
      choices_df = DataFrame_columns choice_header,
      avail_df = DataFrame_columns avail_header\<rparr>"

definition scenario_avail :: dataframe where
  "scenario_avail =
     \<lparr>columns = [''Faculty_Name'', ''Subject_Code'', ''Subject_Name'', ''Available''],
      rows = [[Some ''Dr. A'', Some ''CS101'', Some ''Intro'', Some ''Yes''],
              [Some ''Dr. B'', Some ''CS101'', Some ''Intro'', Some ''Yes'']]\<rparr>"

text \<open>A subject code that is taught in two years, and one faculty member.\<close>

definition repeated_code_subjects :: dataframe where
  "repeated_code_subjects =
     \<lparr>columns = [''Year'', ''Subject_Code'', ''Subject_Name''],
      rows = [[Some ''1'', Some ''CS101'', Some ''Intro''],
              [Some ''2'', Some ''CS101'', Some ''Advanced'']]\<rparr>"

definition one_faculty :: dataframe where
  "one_faculty = \<lparr>columns = [''Faculty_Name''], rows = [[Some ''Dr. A'']]\<rparr>"

definition repeated_code_world :: world where
  "repeated_code_world =
     \<lparr>subjects_file = Csv repeated_code_subjects, faculty_file = Csv one_faculty,
      choice_file = Csv (DataFrame_columns choice_header),
      avail_file = Csv (DataFrame_columns avail_header),
      subjects_df = repeated_code_subjects, faculty_df = one_faculty,
      choices_df = DataFrame_columns choice_header,
      avail_df = DataFrame_columns avail_header\<rparr>"

definition repeated_code_avail :: dataframe where
  "repeated_code_avail =
     \<lparr>columns = [''Faculty_Name'', ''Subject_Code'', ''Subject_Name'', ''Available''],
      rows = [[Some ''Dr. A'', Some ''CS101'', Some ''Intro'', Some ''Yes''],
              [Some ''Dr. A'', Some ''CS101'', Some ''Advanced'', Some ''Yes'']]\<rparr>"

text \<open>The rows of an availability table that do not name the faculty member \<open>f\<close>.\<close>

definition other_faculty_rows :: "string \<Rightarrow> dataframe \<Rightarrow> cell list list" where
  "other_faculty_rows f df =
     filter (\<lambda>r. cell_at (columns df) r ''Faculty_Name'' \<noteq> Some f) (rows df)"

text \<open>
  The scenario after initialisation, and Dr. A marking the one subject "No": the rows
  shown to Dr. A, the widget state, the submitted rows and the state after saving.
\<close>

definition initialised_world :: world where
  "initialised_world = scenario_world\<lparr>avail_df := scenario_avail, avail_file := Csv scenario_avail\<rparr>"

definition dr_a_rows :: dataframe where
  "dr_a_rows =
     \<lparr>columns = [''Faculty_Name'', ''Subject_Code'', ''Subject_Name'', ''Available''],
      rows = [[Some ''Dr. A'', Some ''CS101'', Some ''Intro'', Some ''Yes'']]\<rparr>"

definition choose_no :: "string \<Rightarrow> nat" where
  "choose_no key = 1"

definition dr_a_update :: "cell list list" where
  "dr_a_update = [[Some ''Dr. A'', Some ''CS101'', Some ''Intro'', Some ''No'']]"

definition dr_a_saved :: dataframe where
  "dr_a_saved =
     \<lparr>columns = [''Faculty_Name'', ''Subject_Code'', ''Subject_Name'', ''Available''],
      rows = [[Some ''Dr. B'', Some ''CS101'', Some ''Intro'', Some ''Yes''],
              [Some ''Dr. A'', Some ''CS101'', Some ''Intro'', Some ''No'']]\<rparr>"

definition saved_world :: world where
  "saved_world = initialised_world\<lparr>avail_df := dr_a_saved, avail_file := Csv dr_a_saved\<rparr>"






















section \<open>Auxiliary facts about frames\<close>

lemma collect_map_Inr:
  "(\<And>x. x \<in> set xs \<Longrightarrow> f x = Inr (g x)) \<Longrightarrow> collect (map f xs) = Inr (map g xs)"
  by (induction xs) auto

lemma cell_at_Cons:
  "cell_at (c # cols) (v # r) k = (if k = c then v else cell_at cols r k)"
  by (simp add: cell_at_def)

lemma reindex_same:
  "distinct cols \<Longrightarrow> length r = length cols \<Longrightarrow> reindex cols cols r = r"
proof (induction cols arbitrary: r)
  case Nil
  then show ?case by (simp add: reindex_def)
next
  case (Cons c cols)
  then obtain v r' where r: "r = v # r'" and len: "length r' = length cols"
    by (cases r) auto
  from Cons.prems have notin: "c \<notin> set cols" and dist: "distinct cols" by auto
  have "map (cell_at (c # cols) (v # r')) cols = map (cell_at cols r') cols"
    using notin by (intro map_cong) (auto simp: cell_at_Cons)
  also have "\<dots> = r'"
    using Cons.IH [OF dist len] by (simp add: reindex_def)
  finally show ?case
    by (simp add: reindex_def r cell_at_Cons)
qed

lemma concat_frames_same_columns:
  assumes "distinct cols" "columns a = cols" "columns b = cols"
    and "list_all (\<lambda>r. length r = length cols) (rows a)"
    and "list_all (\<lambda>r. length r = length cols) (rows b)"
  shows "concat_frames a b = \<lparr>columns = cols, rows = rows a @ rows b\<rparr>"
proof -
  have "map (reindex cols cols) rs = rs" if "list_all (\<lambda>r. length r = length cols) rs" for rs
    using that assms(1) by (induction rs) (auto simp: reindex_same)
  then show ?thesis
    using assms by (simp add: concat_frames_def)
qed

lemma initialize_frame:
  "initialize_availability_if_empty w = Inr w' \<Longrightarrow>
     subjects_file w' = subjects_file w \<and> faculty_file w' = faculty_file w \<and>
     choice_file w' = choice_file w \<and> subjects_df w' = subjects_df w \<and>
     faculty_df w' = faculty_df w \<and> choices_df w' = choices_df w"
  by (auto simp: initialize_availability_if_empty_def Let_def split: if_splits sum.splits)





lemma default_rows_Inr:
  assumes "column sdf ''Subject_Code'' = Inr codes" "column sdf ''Subject_Name'' = Inr snames"
  shows "default_rows fname sdf
           = Inr (map (\<lambda>(c, s). [fname, c, s, Some ''Yes'']) (zip codes snames))"
proof -
  from assms have in_cols: "''Subject_Code'' \<in> set (columns sdf)"
      "''Subject_Name'' \<in> set (columns sdf)"
    and codes: "codes = map (\<lambda>r. cell_at (columns sdf) r ''Subject_Code'') (rows sdf)"
    and snames: "snames = map (\<lambda>r. cell_at (columns sdf) r ''Subject_Name'') (rows sdf)"
    by (auto simp: column_def split: if_splits)
  have "default_rows fname sdf
          = Inr (map (\<lambda>r. [fname, cell_at (columns sdf) r ''Subject_Code'',
                            cell_at (columns sdf) r ''Subject_Name'', Some ''Yes'']) (rows sdf))"
    unfolding default_rows_def using in_cols
    by (intro collect_map_Inr) (simp add: getitem_def)
  also have "map (\<lambda>r. [fname, cell_at (columns sdf) r ''Subject_Code'',
                            cell_at (columns sdf) r ''Subject_Name'', Some ''Yes'']) (rows sdf)
             = map (\<lambda>(c, s). [fname, c, s, Some ''Yes'']) (zip codes snames)"
    unfolding codes snames by (simp add: zip_map_map zip_same_conv_map comp_def)
  finally show ?thesis .
qed

lemma cross_rows_Inr:
  assumes "column fdf ''Faculty_Name'' = Inr names"
    and "column sdf ''Subject_Code'' = Inr codes" "column sdf ''Subject_Name'' = Inr snames"
  shows "cross_rows fdf sdf = Inr (map default_row (List.product names (zip codes snames)))"
proof -
  from assms(1) have in_cols: "''Faculty_Name'' \<in> set (columns fdf)"
    and names: "names = map (\<lambda>r. cell_at (columns fdf) r ''Faculty_Name'') (rows fdf)"
    by (auto simp: column_def split: if_splits)
  have "collect (map (\<lambda>frow.
              case faculty_name_of (columns fdf) frow of
                Inl e \<Rightarrow> Inl e
              | Inr fname \<Rightarrow> default_rows fname sdf) (rows fdf))
        = Inr (map (\<lambda>frow. map (\<lambda>(c, s). [cell_at (columns fdf) frow ''Faculty_Name'', c, s, Some ''Yes''])
                        (zip codes snames)) (rows fdf))"
    using in_cols
    by (intro collect_map_Inr) (simp add: faculty_name_of_def default_rows_Inr [OF assms(2,3)])
  moreover have "map default_row (List.product names ps)
        = concat (map (\<lambda>n. map (\<lambda>(c, s). [n, c, s, Some ''Yes'']) ps) names)" for ps
    by (induction names) (simp_all add: default_row_def comp_def)
  ultimately show ?thesis
    by (simp add: cross_rows_def names comp_def)
qed

lemma pairs_of_default_rows:
  assumes "length codes = length snames"
  shows "faculty_subject_pairs
           \<lparr>columns = avail_header, rows = map default_row (List.product names (zip codes snames))\<rparr>
         = List.product names codes"
proof -
  have "map (\<lambda>p. (fst p, fst (snd p))) (List.product names ps) = List.product names (map fst ps)"
    for ps :: "(cell \<times> cell) list"
    by (induction names) (simp_all add: comp_def)
  from this [of "zip codes snames"] assms show ?thesis
    by (simp add: faculty_subject_pairs_def default_row_def avail_header_def cell_at_Cons
        case_prod_beta comp_def)
qed

lemma distinct_product_conv:
  "xs \<noteq> [] \<Longrightarrow> ys \<noteq> [] \<Longrightarrow> distinct (List.product xs ys) \<longleftrightarrow> distinct xs \<and> distinct ys"
proof (induction xs)
  case Nil
  then show ?case by simp
next
  case (Cons x xs)
  have inj: "distinct (map (Pair x) ys) \<longleftrightarrow> distinct ys"
    by (simp add: distinct_map inj_on_def)
  have disj: "set (map (Pair x) ys) \<inter> set (List.product xs ys) = {} \<longleftrightarrow> x \<notin> set xs"
    using Cons.prems(2) by (cases ys) auto
  show ?case
  proof (cases "xs = []")
    case True
    then show ?thesis using inj by simp
  next
    case False
    with Cons inj disj show ?thesis by auto
  qed
qed

lemmas frame_defs = df_empty_def column_def cell_at_def getitem_def DataFrame_columns_def
  DataFrame_records_def choice_header_def avail_header_def Let_def

lemma reindex_rows_same:
  "distinct cols \<Longrightarrow> list_all (\<lambda>r. length r = length cols) rs \<Longrightarrow>
   map (reindex cols cols) rs = rs"
  by (induction rs) (auto simp: reindex_same)

lemma availability_form_rows_shape:
  "availability_form_rows f widget cols used rs = Inr u \<Longrightarrow>
   list_all (\<lambda>r. length r = 4 \<and> cell_at avail_header r ''Faculty_Name'' = Some f) u"
proof (induction rs arbitrary: used u)
  case Nil
  then show ?case by simp
next
  case (Cons row rest)
  then show ?case
    by (auto simp: Let_def avail_header_def cell_at_Cons split: sum.splits if_splits)
qed

lemma save_avail_result:
  assumes tab: "is_table avail_header (load_availability w)"
    and shape: "list_all (\<lambda>r. length r = 4 \<and> cell_at avail_header r ''Faculty_Name'' = Some f) u"
  shows "save_avail f u w =
           Inr (w\<lparr>avail_df := \<lparr>columns = avail_header,
                                rows = other_faculty_rows f (load_availability w) @ u\<rparr>,
                  avail_file := Csv \<lparr>columns = avail_header,
                                rows = other_faculty_rows f (load_availability w) @ u\<rparr>\<rparr>)"
proof -
  let ?avail = "load_availability w"
  let ?kept = "select_rows (\<lambda>r. cell_at (columns ?avail) r ''Faculty_Name'' \<noteq> Some f) ?avail"
  from tab have cols: "columns ?avail = avail_header"
    and full: "list_all (\<lambda>r. length r = length avail_header) (rows ?avail)"
    by (simp_all add: is_table_def)
  have kept_cols: "columns ?kept = avail_header"
    and kept_rows: "rows ?kept = other_faculty_rows f ?avail"
    by (simp_all add: select_rows_def cols other_faculty_rows_def)
  have kept_full: "list_all (\<lambda>r. length r = length avail_header) (rows ?kept)"
    using full by (simp add: select_rows_def list_all_iff)
  have dist: "distinct avail_header"
    by (simp add: avail_header_def)
  have final: "concat_frames ?kept
                 (DataFrame_records
                    [''Faculty_Name'', ''Subject_Code'', ''Subject_Name'', ''Available''] u)
               = \<lparr>columns = avail_header, rows = other_faculty_rows f ?avail @ u\<rparr>"
  proof (cases "u = []")
    case True
    have "map (reindex avail_header avail_header) (rows ?kept) = rows ?kept"
      using dist kept_full by (rule reindex_rows_same)
    with True show ?thesis
      using kept_cols kept_rows by (simp add: concat_frames_def DataFrame_records_def)
  next
    case False
    have "list_all (\<lambda>r. length r = length avail_header) u"
      using shape by (simp add: list_all_iff avail_header_def)
    with False show ?thesis
      using concat_frames_same_columns [OF dist kept_cols _ kept_full, of
          "DataFrame_records [''Faculty_Name'', ''Subject_Code'', ''Subject_Name'', ''Available''] u"]
        kept_rows
      by (simp add: DataFrame_records_def avail_header_def)
  qed
  have "''Faculty_Name'' \<in> set (columns ?avail)"
    by (simp add: cols avail_header_def)
  then show ?thesis
    using final by (simp add: save_avail_def Let_def)
qed

lemma other_faculty_rows_saved:
  assumes "list_all (\<lambda>r. length r = 4 \<and> cell_at avail_header r ''Faculty_Name'' = Some f) u"
    and "columns df0 = avail_header"
  shows "other_faculty_rows f \<lparr>columns = avail_header, rows = other_faculty_rows f df0 @ u\<rparr>
         = other_faculty_rows f df0"
proof -
  have "filter (\<lambda>r. cell_at avail_header r ''Faculty_Name'' \<noteq> Some f) u = []"
    using assms(1) by (simp add: list_all_iff filter_empty_conv)
  then show ?thesis
    using assms(2) by (simp add: other_faculty_rows_def)
qed

lemma load_availability_saved:
  "load_availability (w\<lparr>avail_df := d, avail_file := Csv \<lparr>columns = avail_header, rows = rs\<rparr>\<rparr>)
     = \<lparr>columns = avail_header, rows = rs\<rparr>"
  by (simp add: load_availability_def read_csv_def avail_header_def)

lemmas scenario_defs = scenario_world_def scenario_subjects_def scenario_faculty_def
  scenario_avail_def initialised_world_def dr_a_rows_def dr_a_saved_def dr_a_update_def
  saved_world_def

lemma availability_example:
  "is_table avail_header (load_availability initialised_world)"
  "availability_form ''Dr. A'' dr_a_rows choose_no = Inr dr_a_update"
  "save_avail ''Dr. A'' dr_a_update initialised_world = Inr saved_world"
  by (simp_all add: scenario_defs is_table_def load_availability_def read_csv_def
      availability_form_def choose_no_def selectbox_def str_def save_avail_def select_rows_def
      concat_frames_def reindex_def frame_defs)

























text \<open>
  The Faculty frame of a run comes from \<open>load_faculty\<close> or from an upload; both give it a
  Faculty_Name column whenever it has a column at all.
\<close>

lemma load_faculty_has_name:
  "columns (load_faculty w) \<noteq> [] \<Longrightarrow> ''Faculty_Name'' \<in> set (columns (load_faculty w))"
  by (auto simp: load_faculty_def DataFrame_columns_def rename_def
      split: sum.splits list.splits)

lemma detect_name_column_has_name:
  "detect_name_column df = Some df' \<Longrightarrow> ''Faculty_Name'' \<in> set (columns df')"
  by (auto simp: detect_name_column_def rename_def find_Some_iff
      split: if_splits option.splits)

section \<open>Loading a table that cannot be read\<close>

text \<open>
  Claim C6. Whenever reading the backing file of the Subjects, Faculty, Choices or
  Availability table raises (the file is missing, does not parse, or has no columns),
  the load function returns the table with the canonical header of that kind and no
  rows. The load functions return a frame in every case, so no failure leaves them.
\<close>

theorem load_failure_yields_empty_canonical_table:
  "(read_csv (subjects_file w) = Inl e1 \<longrightarrow>
      load_subjects w = \<lparr>columns = subjects_header, rows = []\<rparr>) \<and>
   (read_csv (faculty_file w) = Inl e2 \<longrightarrow>
      load_faculty w = \<lparr>columns = faculty_header, rows = []\<rparr>) \<and>
   (read_csv (choice_file w) = Inl e3 \<longrightarrow>
      load_choices w = \<lparr>columns = choice_header, rows = []\<rparr>) \<and>
   (read_csv (avail_file w) = Inl e4 \<longrightarrow>
      load_availability w = \<lparr>columns = avail_header, rows = []\<rparr>)"
  by (simp add: load_subjects_def load_faculty_def load_choices_def load_availability_def
      DataFrame_columns_def subjects_header_def faculty_header_def choice_header_def
      avail_header_def)

theorem load_failure_yields_empty_canonical_table_witness:
  "read_csv (subjects_file broken_world) = Inl FileNotFoundError \<and>
   read_csv (faculty_file broken_world) = Inl ParserError \<and>
   read_csv (choice_file broken_world) = Inl EmptyDataError \<and>
   read_csv (avail_file broken_world) = Inl FileNotFoundError \<and>
   load_subjects broken_world =
     \<lparr>columns = [''Year'', ''Subject_Code'', ''Subject_Name''], rows = []\<rparr> \<and>
   load_faculty broken_world = \<lparr>columns = [''Faculty_Name''], rows = []\<rparr> \<and>
   load_choices broken_world =
     \<lparr>columns = [''Regd_No'', ''Name'', ''Year'', ''Section'', ''Subject_Code'', ''Subject_Name'',
                 ''Faculty_Selected''], rows = []\<rparr> \<and>
   load_availability broken_world =
     \<lparr>columns = [''Faculty_Name'', ''Subject_Code'', ''Subject_Name'', ''Available''], rows = []\<rparr>"
proof -
  have h: "read_csv (subjects_file broken_world) = Inl FileNotFoundError"
    "read_csv (faculty_file broken_world) = Inl ParserError"
    "read_csv (choice_file broken_world) = Inl EmptyDataError"
    "read_csv (avail_file broken_world) = Inl FileNotFoundError"
    by (simp_all add: broken_world_def read_csv_def blank_frame_def)
  show ?thesis
    using h load_failure_yields_empty_canonical_table
      [of broken_world FileNotFoundError ParserError EmptyDataError FileNotFoundError]
    by (simp add: subjects_header_def faculty_header_def choice_header_def avail_header_def)
qed

section \<open>Uploading the reference tables\<close>

text \<open>
  Claim C5. An uploaded subjects file whose columns do not include all of Year,
  Subject_Code and Subject_Name is rejected with the missing-columns error and the run
  leaves every file and frame as it was, the stored Subjects file included. Conversely,
  if the stored Subjects file differs after the upload, then the upload parsed, had all
  three columns, and the file now holds the uploaded table.
\<close>

theorem upload_subjects_rejects_without_write:
  "(\<forall>df. read_csv uploaded = Inr df \<and> \<not> set subjects_header \<subseteq> set (columns df) \<longrightarrow>
      upload_subjects uploaded w = (w, [Error_missing_columns])) \<and>
   (subjects_file (fst (upload_subjects uploaded w)) \<noteq> subjects_file w \<longrightarrow>
      (\<exists>df. read_csv uploaded = Inr df \<and> set subjects_header \<subseteq> set (columns df) \<and>
            subjects_file (fst (upload_subjects uploaded w)) = Csv df))"
  by (auto simp: upload_subjects_def subjects_header_def Let_def split: sum.splits
      dest: initialize_frame)

theorem upload_subjects_rejects_without_write_witness:
  "read_csv (Csv subjects_upload_bad) = Inr subjects_upload_bad \<and>
   \<not> set subjects_header \<subseteq> set (columns subjects_upload_bad) \<and>
   upload_subjects (Csv subjects_upload_bad) broken_world = (broken_world, [Error_missing_columns]) \<and>
   subjects_file (fst (upload_subjects (Csv subjects_upload_ok) broken_world))
     \<noteq> subjects_file broken_world \<and>
   set subjects_header \<subseteq> set (columns subjects_upload_ok) \<and>
   subjects_file (fst (upload_subjects (Csv subjects_upload_ok) broken_world))
     = Csv subjects_upload_ok"
proof -
  have bad: "read_csv (Csv subjects_upload_bad) = Inr subjects_upload_bad"
    "\<not> set subjects_header \<subseteq> set (columns subjects_upload_bad)"
    by (simp_all add: read_csv_def subjects_upload_bad_def subjects_header_def)
  have ok: "read_csv (Csv subjects_upload_ok) = Inr subjects_upload_ok"
    by (simp add: read_csv_def subjects_upload_ok_def)
  have changed: "subjects_file (fst (upload_subjects (Csv subjects_upload_ok) broken_world))
     \<noteq> subjects_file broken_world"
    by (simp add: upload_subjects_def read_csv_def subjects_upload_ok_def broken_world_def
        initialize_availability_if_empty_def df_empty_def blank_frame_def)
  from upload_subjects_rejects_without_write [of "Csv subjects_upload_bad" broken_world] bad
  have 1: "upload_subjects (Csv subjects_upload_bad) broken_world
             = (broken_world, [Error_missing_columns])"
    by blast
  from upload_subjects_rejects_without_write [of "Csv subjects_upload_ok" broken_world] changed ok
  have 2: "set subjects_header \<subseteq> set (columns subjects_upload_ok) \<and>
     subjects_file (fst (upload_subjects (Csv subjects_upload_ok) broken_world))
       = Csv subjects_upload_ok"
    by auto
  show ?thesis using bad 1 2 changed by simp
qed



section \<open>Initialising availability\<close>

text \<open>
  Claim C2, as amended. Let the Faculty and Subjects frames be non-empty and the
  Availability frame empty, with \<open>names\<close> the Faculty_Name column and \<open>codes\<close>,
  \<open>snames\<close> the Subject_Code and Subject_Name columns. Then the initialisation stores, in
  the frame and in the file, the table with the availability header whose rows are one
  row (name, code, subject name, "Yes") per faculty row and subject row, faculty-major:
  |Faculty| * |Subjects| rows. Its (Faculty_Name, Subject_Code) pairs are free of
  duplicates exactly when the faculty names are pairwise distinct and the subject codes
  are pairwise distinct. If a reference frame is empty or the Availability frame is not,
  the state is returned as it was.
\<close>

theorem availability_initialisation:
  "(\<not> df_empty (faculty_df w) \<and> \<not> df_empty (subjects_df w) \<and> df_empty (avail_df w) \<and>
    column (faculty_df w) ''Faculty_Name'' = Inr names \<and>
    column (subjects_df w) ''Subject_Code'' = Inr codes \<and>
    column (subjects_df w) ''Subject_Name'' = Inr snames \<longrightarrow>
    (\<exists>a. initialize_availability_if_empty w = Inr (w\<lparr>avail_df := a, avail_file := Csv a\<rparr>) \<and>
         columns a = avail_header \<and>
         rows a = map default_row (List.product names (zip codes snames)) \<and>
         length (rows a) = length (rows (faculty_df w)) * length (rows (subjects_df w)) \<and>
         (distinct (faculty_subject_pairs a) \<longleftrightarrow> distinct names \<and> distinct codes))) \<and>
   (df_empty (faculty_df w) \<or> df_empty (subjects_df w) \<or> \<not> df_empty (avail_df w) \<longrightarrow>
    initialize_availability_if_empty w = Inr w)"
proof (intro conjI impI)
  assume a: "\<not> df_empty (faculty_df w) \<and> \<not> df_empty (subjects_df w) \<and> df_empty (avail_df w) \<and>
    column (faculty_df w) ''Faculty_Name'' = Inr names \<and>
    column (subjects_df w) ''Subject_Code'' = Inr codes \<and>
    column (subjects_df w) ''Subject_Name'' = Inr snames"
  let ?rs = "map default_row (List.product names (zip codes snames))"
  let ?a = "\<lparr>columns = avail_header, rows = ?rs\<rparr>"
  from a have ln: "length names = length (rows (faculty_df w))"
    and lc: "length codes = length (rows (subjects_df w))"
    and ls: "length snames = length (rows (subjects_df w))"
    by (auto simp: column_def split: if_splits)
  from a have ne: "names \<noteq> []" "codes \<noteq> []" "snames \<noteq> []"
    using ln lc ls by (auto simp: df_empty_def)
  then have rs_ne: "?rs \<noteq> []"
    by (cases names; cases codes; cases snames) simp_all
  have cr: "cross_rows (faculty_df w) (subjects_df w) = Inr ?rs"
    using a by (simp add: cross_rows_Inr)
  have "initialize_availability_if_empty w = Inr (w\<lparr>avail_df := ?a, avail_file := Csv ?a\<rparr>)"
    using a rs_ne
    by (simp add: initialize_availability_if_empty_def cr DataFrame_records_def
        avail_header_def Let_def)
  moreover have "length ?rs = length (rows (faculty_df w)) * length (rows (subjects_df w))"
    by (simp add: length_product ln lc ls)
  moreover have "distinct (faculty_subject_pairs ?a) \<longleftrightarrow> distinct names \<and> distinct codes"
    using pairs_of_default_rows [of codes snames names] lc ls ne
    by (simp add: distinct_product_conv)
  ultimately show "\<exists>a. initialize_availability_if_empty w = Inr (w\<lparr>avail_df := a, avail_file := Csv a\<rparr>) \<and>
         columns a = avail_header \<and>
         rows a = map default_row (List.product names (zip codes snames)) \<and>
         length (rows a) = length (rows (faculty_df w)) * length (rows (subjects_df w)) \<and>
         (distinct (faculty_subject_pairs a) \<longleftrightarrow> distinct names \<and> distinct codes)"
    by (intro exI [of _ ?a]) simp
next
  assume "df_empty (faculty_df w) \<or> df_empty (subjects_df w) \<or> \<not> df_empty (avail_df w)"
  then show "initialize_availability_if_empty w = Inr w"
    by (auto simp: initialize_availability_if_empty_def)
qed

theorem availability_initialisation_witness:
  "\<not> df_empty (faculty_df scenario_world) \<and> \<not> df_empty (subjects_df scenario_world) \<and>
   df_empty (avail_df scenario_world) \<and>
   column (faculty_df scenario_world) ''Faculty_Name'' = Inr [Some ''Dr. A'', Some ''Dr. B''] \<and>
   column (subjects_df scenario_world) ''Subject_Code'' = Inr [Some ''CS101''] \<and>
   column (subjects_df scenario_world) ''Subject_Name'' = Inr [Some ''Intro''] \<and>
   initialize_availability_if_empty scenario_world
     = Inr (scenario_world\<lparr>avail_df := scenario_avail, avail_file := Csv scenario_avail\<rparr>) \<and>
   length (rows scenario_avail) = 2 * 1 \<and>
   distinct (faculty_subject_pairs scenario_avail) \<and>
   df_empty (faculty_df broken_world) \<and>
   initialize_availability_if_empty broken_world = Inr broken_world"
proof -
  have h: "\<not> df_empty (faculty_df scenario_world) \<and> \<not> df_empty (subjects_df scenario_world) \<and>
     df_empty (avail_df scenario_world) \<and>
     column (faculty_df scenario_world) ''Faculty_Name'' = Inr [Some ''Dr. A'', Some ''Dr. B''] \<and>
     column (subjects_df scenario_world) ''Subject_Code'' = Inr [Some ''CS101''] \<and>
     column (subjects_df scenario_world) ''Subject_Name'' = Inr [Some ''Intro'']"
    by (simp add: scenario_world_def scenario_subjects_def scenario_faculty_def frame_defs)
  have b: "df_empty (faculty_df broken_world)"
    by (simp add: broken_world_def blank_frame_def df_empty_def)
  from availability_initialisation
         [of scenario_world "[Some ''Dr. A'', Some ''Dr. B'']" "[Some ''CS101'']" "[Some ''Intro'']"] h
  obtain a where a:
    "initialize_availability_if_empty scenario_world
       = Inr (scenario_world\<lparr>avail_df := a, avail_file := Csv a\<rparr>)"
    "columns a = avail_header"
    "rows a = map default_row
                (List.product [Some ''Dr. A'', Some ''Dr. B''] (zip [Some ''CS101''] [Some ''Intro'']))"
    "distinct (faculty_subject_pairs a) \<longleftrightarrow>
       distinct [Some ''Dr. A'', Some ''Dr. B''] \<and> distinct [Some ''CS101'']"
    by blast
  have eq: "a = scenario_avail"
    using a(2,3) by (cases a) (simp add: scenario_avail_def avail_header_def default_row_def)
  have d: "distinct (faculty_subject_pairs scenario_avail)"
    using a(4) unfolding eq by simp
  from availability_initialisation [of broken_world] b
  have n: "initialize_availability_if_empty broken_world = Inr broken_world"
    by blast
  show ?thesis
    using h b a(1) d n unfolding eq by (simp add: scenario_avail_def)
qed

text \<open>
  The claim as stated promises pairs without duplicates for every non-empty Subjects and
  Faculty table. A subject code listed under two years gives two rows with the same
  pair.
\<close>

theorem initialisation_duplicate_pairs_counterexample:
  "\<not> df_empty (subjects_df repeated_code_world) \<and> \<not> df_empty (faculty_df repeated_code_world) \<and>
   df_empty (avail_df repeated_code_world) \<and>
   initialize_availability_if_empty repeated_code_world
     = Inr (repeated_code_world\<lparr>avail_df := repeated_code_avail,
                                avail_file := Csv repeated_code_avail\<rparr>) \<and>
   \<not> distinct (faculty_subject_pairs repeated_code_avail)"
  by (simp add: repeated_code_world_def repeated_code_subjects_def one_faculty_def
      repeated_code_avail_def initialize_availability_if_empty_def cross_rows_def
      default_rows_def faculty_name_of_def faculty_subject_pairs_def frame_defs)

section \<open>Saving a faculty member's availability\<close>

text \<open>
  Claim C3. Let the Availability table on file have the availability header, and let the
  rows to submit come out of the availability form of faculty member \<open>f\<close>. Then the save
  succeeds and writes a table with the same header whose rows not naming \<open>f\<close> are, in the
  same order and number, the rows not naming \<open>f\<close> of the table that the save reloaded:
  no row of another faculty member is altered, dropped or added.
\<close>

theorem save_avail_keeps_other_faculty:
  assumes "is_table avail_header (load_availability w)"
    and "availability_form f my_avail widget = Inr updated_rows"
  shows "\<exists>final. save_avail f updated_rows w = Inr (w\<lparr>avail_df := final, avail_file := Csv final\<rparr>)
           \<and> columns final = avail_header
           \<and> other_faculty_rows f final = other_faculty_rows f (load_availability w)"
proof -
  have shape: "list_all (\<lambda>r. length r = 4 \<and> cell_at avail_header r ''Faculty_Name'' = Some f)
      updated_rows"
    using assms(2) unfolding availability_form_def by (rule availability_form_rows_shape)
  have cols: "columns (load_availability w) = avail_header"
    using assms(1) by (simp add: is_table_def)
  show ?thesis
    using save_avail_result [OF assms(1) shape] other_faculty_rows_saved [OF shape cols]
    by (intro exI [of _ "\<lparr>columns = avail_header,
          rows = other_faculty_rows f (load_availability w) @ updated_rows\<rparr>"]) simp
qed

theorem save_avail_keeps_other_faculty_witness:
  "is_table avail_header (load_availability initialised_world) \<and>
   availability_form ''Dr. A'' dr_a_rows choose_no = Inr dr_a_update \<and>
   save_avail ''Dr. A'' dr_a_update initialised_world
     = Inr (initialised_world\<lparr>avail_df := dr_a_saved, avail_file := Csv dr_a_saved\<rparr>) \<and>
   other_faculty_rows ''Dr. A'' dr_a_saved
     = [[Some ''Dr. B'', Some ''CS101'', Some ''Intro'', Some ''Yes'']] \<and>
   other_faculty_rows ''Dr. A'' (load_availability initialised_world)
     = [[Some ''Dr. B'', Some ''CS101'', Some ''Intro'', Some ''Yes'']]"
proof -
  from save_avail_keeps_other_faculty [OF availability_example(1,2)]
  obtain final where final:
    "save_avail ''Dr. A'' dr_a_update initialised_world
       = Inr (initialised_world\<lparr>avail_df := final, avail_file := Csv final\<rparr>)"
    "other_faculty_rows ''Dr. A'' final
       = other_faculty_rows ''Dr. A'' (load_availability initialised_world)"
    by blast
  from final(1) [unfolded availability_example(3)] have eq: "final = dr_a_saved"
    by (simp add: saved_world_def initialised_world_def scenario_world_def)
  have "other_faculty_rows ''Dr. A'' dr_a_saved
     = [[Some ''Dr. B'', Some ''CS101'', Some ''Intro'', Some ''Yes'']]"
    by (simp add: other_faculty_rows_def dr_a_saved_def cell_at_def)
  then show ?thesis
    using final availability_example unfolding eq by (simp add: saved_world_def)
qed

text \<open>
  Claim C10. Under the same conditions, saving the same submitted rows a second time
  leaves the state that the first save produced: the same file content and frame.
\<close>

theorem save_avail_idempotent:
  assumes "is_table avail_header (load_availability w)"
    and "availability_form f my_avail widget = Inr updated_rows"
  shows "\<exists>w1. save_avail f updated_rows w = Inr w1 \<and> save_avail f updated_rows w1 = Inr w1"
proof -
  let ?final = "\<lparr>columns = avail_header,
      rows = other_faculty_rows f (load_availability w) @ updated_rows\<rparr>"
  let ?w1 = "w\<lparr>avail_df := ?final, avail_file := Csv ?final\<rparr>"
  have shape: "list_all (\<lambda>r. length r = 4 \<and> cell_at avail_header r ''Faculty_Name'' = Some f)
      updated_rows"
    using assms(2) unfolding availability_form_def by (rule availability_form_rows_shape)
  have cols: "columns (load_availability w) = avail_header"
    and full: "list_all (\<lambda>r. length r = length avail_header) (rows (load_availability w))"
    using assms(1) by (simp_all add: is_table_def)
  have first: "save_avail f updated_rows w = Inr ?w1"
    by (rule save_avail_result [OF assms(1) shape])
  have loaded: "load_availability ?w1 = ?final"
    by (rule load_availability_saved)
  have tab1: "is_table avail_header (load_availability ?w1)"
    unfolding loaded is_table_def using full shape
    by (auto simp: list_all_iff other_faculty_rows_def avail_header_def)
  have "save_avail f updated_rows ?w1 = Inr ?w1"
    using save_avail_result [OF tab1 shape] other_faculty_rows_saved [OF shape cols]
    by (simp add: loaded)
  with first show ?thesis by blast
qed

theorem save_avail_idempotent_witness:
  "is_table avail_header (load_availability initialised_world) \<and>
   availability_form ''Dr. A'' dr_a_rows choose_no = Inr dr_a_update \<and>
   save_avail ''Dr. A'' dr_a_update initialised_world = Inr saved_world \<and>
   save_avail ''Dr. A'' dr_a_update saved_world = Inr saved_world"
proof -
  from save_avail_idempotent [OF availability_example(1,2)]
  obtain w1 where "save_avail ''Dr. A'' dr_a_update initialised_world = Inr w1"
    and "save_avail ''Dr. A'' dr_a_update w1 = Inr w1"
    by blast
  then show ?thesis
    using availability_example by simp
qed

section \<open>Submitting choices\<close>





section \<open>The selection form and availability\<close>



section \<open>The workload report of the scenario\<close>




end
